theory Spec2Isabelle
  imports Main "HOL-Library.Sublist"
begin

section \<open>Python strings\<close>

text \<open>
  A Python \<open>str\<close> is modelled as a \<open>string\<close> (a list of characters). The three
  characters the quoting code looks at are named here by their code.
\<close>

definition DQUOTE :: char where
  "DQUOTE = CHR 0x22"

definition SQUOTE :: char where
  "SQUOTE = CHR 0x27"

definition BACKSLASH :: char where
  "BACKSLASH = CHR 0x5C"

text \<open>
  \<open>s.replace(old, new)\<close>: every non-overlapping occurrence of \<open>old\<close>, found from the
  left, is replaced by \<open>new\<close>. For an empty \<open>old\<close> Python puts \<open>new\<close> before every
  character and at the end.
\<close>

function replace :: "string \<Rightarrow> string \<Rightarrow> string \<Rightarrow> string" where
  "replace old new s =
     (if old = [] then new @ concat (map (\<lambda>c. c # new) s)
      else if s = [] then []
      else if prefix old s then new @ replace old new (drop (length old) s)
      else hd s # replace old new (tl s))"
  by pat_completeness auto
termination
  by (relation "measure (\<lambda>(old, new, s). length s)") auto

declare replace.simps [simp del]

text \<open>\<open>old in s\<close>: \<open>old\<close> occurs in \<open>s\<close> as a substring.\<close>

fun contains :: "string \<Rightarrow> string \<Rightarrow> bool" where
  "contains old [] = (old = [])"
| "contains old (c # cs) = (prefix old (c # cs) \<or> contains old cs)"

text \<open>
  \<open>s.upper()\<close> on the ASCII letters, which is all that the operator tokens of the
  language are made of; every other character is left as it is.
\<close>

definition upper_char :: "char \<Rightarrow> char" where
  "upper_char c =
     (case map_of (zip ''abcdefghijklmnopqrstuvwxyz'' ''ABCDEFGHIJKLMNOPQRSTUVWXYZ'') c of
        None \<Rightarrow> c
      | Some u \<Rightarrow> u)"

definition upper :: "string \<Rightarrow> string" where
  "upper s = map upper_char s"

text \<open>\<open>sep.join(xs)\<close>.\<close>

fun join :: "string \<Rightarrow> string list \<Rightarrow> string" where
  "join sep [] = []"
| "join sep [x] = x"
| "join sep (x # y # ys) = x @ sep @ join sep (y # ys)"

text \<open>
  An optional text inside an f-string: \<open>None\<close> is formatted as the four letters
  \<open>None\<close>.
\<close>

definition str_of :: "string option \<Rightarrow> string" where
  "str_of v = (case v of None \<Rightarrow> ''None'' | Some s \<Rightarrow> s)"

section \<open>\<open>from_pql.unquote\<close>\<close>

text \<open>
  \<open>s[1:-1]\<close> drops the first and the last character; on a one-character string it is
  empty.
\<close>

definition strip_ends :: "string \<Rightarrow> string" where
  "strip_ends s = butlast (tl s)"

text \<open>
  The test \<open>wrapper == ('"', '"') or wrapper == ("'", "'")\<close> of \<open>unquote\<close>, on a
  non-empty string: \<open>s[0]\<close> is the first character and \<open>s[-1]\<close> the last.
\<close>

definition wrapped :: "string \<Rightarrow> bool" where
  "wrapped s \<longleftrightarrow>
     s \<noteq> [] \<and> ((hd s = DQUOTE \<and> last s = DQUOTE) \<or> (hd s = SQUOTE \<and> last s = SQUOTE))"

text \<open>
  \<open>unquote\<close>: an empty string is returned at once; a wrapped one loses its two ends;
  then, wrapped or not, every backslash followed by a double quote becomes the double
  quote alone, and after that every backslash followed by a single quote becomes the
  single quote alone.
\<close>

definition unquote :: "string \<Rightarrow> string" where
  "unquote s =
     (if s = [] then s
      else
        let s' = (if wrapped s then strip_ends s else s)
        in replace [BACKSLASH, SQUOTE] [SQUOTE] (replace [BACKSLASH, DQUOTE] [DQUOTE] s'))"

text \<open>
  \<open>unquote\<close> on an optional text: \<open>None\<close> is falsy and is returned by the first
  test, like the empty string.
\<close>

definition unquote_optional :: "string option \<Rightarrow> string option" where
  "unquote_optional s = (case s of None \<Rightarrow> None | Some t \<Rightarrow> Some (unquote t))"

text \<open>
  A text that has no quote wrapper and no backslash-escaped quote in it.
\<close>

definition plain :: "string \<Rightarrow> bool" where
  "plain s \<longleftrightarrow>
     \<not> wrapped s \<and> \<not> contains [BACKSLASH, DQUOTE] s \<and> \<not> contains [BACKSLASH, SQUOTE] s"

section \<open>Errors and the AST\<close>

text \<open>
  The exceptions of the lifter and the renderer: \<open>ParseError\<close> with its message,
  \<open>AttributeError\<close> when an attribute is read from \<open>None\<close> (a missing operand), and
  \<open>IndexError\<close> when the renderer indexes an empty argument tuple.
\<close>

datatype error = ParseError string | AttributeError | IndexError

text \<open>
  The value of a literal: \<open>None\<close>, a \<open>bool\<close>, an \<open>int\<close>, a \<open>float\<close> or a \<open>str\<close>.
  The carrier of the floats is the type parameter \<open>'f\<close>.
\<close>

datatype 'f pyvalue = VNone | VBool bool | VInt int | VFloat 'f | VStr string

text \<open>
  Modelled from the spec: the module \<open>model\<close> (imported as \<open>ast\<close>) with the four
  node classes is not among the sources. The fields are those of section 3 of the
  specification, in the order in which \<open>from_pql\<close> passes them to the constructors;
  the renderer reads the second field of a literal as \<open>raw_value\<close>. A text field is
  optional because \<open>full_text\<close> returns \<open>None\<close> for a missing sub-node.
\<close>

datatype 'f node =
    is_Literal: Literal (node_value: "'f pyvalue") (raw_value: string)
  | is_Taxon: Taxon "string option" "string option" bool "string option"
  | is_Function: Function "string option" "(string option \<times> 'f node) list option"
  | is_Expr: Expr (node_operator: string) (node_args: "'f node list")

section \<open>The parse tree\<close>

text \<open>
  Modelled from the spec: the context classes of the generated parser (\<open>PqlParser\<close>) are
  not among the sources. A node carries the attributes that the lifter reads, as
  section 6 of the specification lists them, each one optional where the lifter
  tests it for presence, and the source text that \<open>full_text\<close> extracts for it.
\<close>

datatype tok = Tok (tok_text: string)

record literal_ctx =
  NUMERIC_LITERAL :: bool
  DOUBLE_QUOTED_STRING :: bool
  SINGLE_QUOTED_STRING :: bool
  K_NULL :: bool
  K_TRUE :: bool
  K_FALSE :: bool
  lit_text :: string

record taxon_ctx =
  slug :: "tok option"
  namespace :: "tok option"
  is_optional :: bool
  tag :: "tok option"

datatype expr_ctx = ExprContext
    (inner: "expr_ctx option")
    (literalValue: "literal_ctx option")
    (unary_operator: "tok option")
    (operator: "tok option")
    (left: "expr_ctx option")
    (right: "expr_ctx option")
    (right_list: "expr_ctx list option")
    (is_negated: bool)
    (taxon: "taxon_ctx option")
    (fn: "fn_ctx option")
    (expr_text: string)
and fn_ctx = FnContext
    (function_name: "tok option")
    (arguments: "expr_ctx list option")

text \<open>
  \<open>full_text\<close>: \<open>None\<close> for a missing node, the node's source text otherwise;
  once for tokens and once for expression nodes.
\<close>

definition full_text :: "tok option \<Rightarrow> string option" where
  "full_text ctx = (case ctx of None \<Rightarrow> None | Some t \<Rightarrow> Some (tok_text t))"

definition full_text_expr :: "expr_ctx option \<Rightarrow> string option" where
  "full_text_expr ctx = (case ctx of None \<Rightarrow> None | Some e \<Rightarrow> Some (expr_text e))"

section \<open>Python's numbers\<close>

text \<open>
  The builtins that the lifter calls on numbers are parameters of the model:
  \<open>int(v)\<close> and \<open>float(v)\<close> on a text (\<open>None\<close> when Python raises), \<open>x * -1\<close>
  on a float and the truth value of a float.
\<close>

record 'f builtins =
  py_int :: "string \<Rightarrow> int option"
  py_float :: "string \<Rightarrow> 'f option"
  float_neg :: "'f \<Rightarrow> 'f"
  float_bool :: "'f \<Rightarrow> bool"

text \<open>
  \<open>isinstance(v, (int, float, Decimal))\<close>: a \<open>bool\<close> is an \<open>int\<close> in Python, so
  \<open>True\<close> and \<open>False\<close> pass the test; no literal value is a \<open>Decimal\<close>.
\<close>

fun is_number :: "'f pyvalue \<Rightarrow> bool" where
  "is_number (VBool b) = True"
| "is_number (VInt i) = True"
| "is_number (VFloat x) = True"
| "is_number VNone = False"
| "is_number (VStr s) = False"

text \<open>
  \<open>v * -1\<close>, evaluated only where \<open>is_number v\<close> holds: \<open>True * -1\<close> is the
  integer \<open>-1\<close> and \<open>False * -1\<close> is \<open>0\<close>.
\<close>

fun times_minus_one :: "'f builtins \<Rightarrow> 'f pyvalue \<Rightarrow> 'f pyvalue" where
  "times_minus_one py (VBool b) = VInt (if b then - 1 else 0)"
| "times_minus_one py (VInt i) = VInt (i * - 1)"
| "times_minus_one py (VFloat x) = VFloat (float_neg py x)"
| "times_minus_one py v = v"

text \<open>The truth value that \<open>not v\<close> negates.\<close>

fun truth :: "'f builtins \<Rightarrow> 'f pyvalue \<Rightarrow> bool" where
  "truth py VNone = False"
| "truth py (VBool b) = b"
| "truth py (VInt i) = (i \<noteq> 0)"
| "truth py (VFloat x) = float_bool py x"
| "truth py (VStr s) = (s \<noteq> [])"

section \<open>The lifter: \<open>PqlAntlrToAstParser\<close>\<close>

text \<open>
  \<open>unwrap_expr_parens\<close>: \<open>inner\<close> is set only on a node that is an expression in
  parentheses; the wrappers are peeled off one after the other.
\<close>

fun unwrap_expr_parens :: "expr_ctx \<Rightarrow> expr_ctx" where
  "unwrap_expr_parens (ExprContext i lv uo oper l r rl neg tx f t) =
     (case i of
        Some e \<Rightarrow> unwrap_expr_parens e
      | None \<Rightarrow> ExprContext i lv uo oper l r rl neg tx f t)"

definition parse_taxon :: "taxon_ctx \<Rightarrow> 'f node" where
  "parse_taxon e =
     Taxon (full_text (slug e)) (full_text (namespace e)) (is_optional e) (full_text (tag e))"

definition parse_literal_value :: "'f builtins \<Rightarrow> literal_ctx \<Rightarrow> error + 'f pyvalue" where
  "parse_literal_value py e =
     (let is_number = NUMERIC_LITERAL e;
          is_string = (DOUBLE_QUOTED_STRING e \<or> SINGLE_QUOTED_STRING e);
          is_null = K_NULL e;
          is_bool = (K_TRUE e \<or> K_FALSE e)
      in if is_null then Inr VNone
         else if is_bool then Inr (VBool (K_TRUE e))
         else
           let v = lit_text e
           in if is_number then
                (case py_int py v of
                   Some i \<Rightarrow> Inr (VInt i)
                 | None \<Rightarrow>
                     (case py_float py v of
                        Some x \<Rightarrow> Inr (VFloat x)
                      | None \<Rightarrow>
                          Inl (ParseError (''Could not convert SQL number '' @ v @
                                 '' to native number representation.''))))
              else if is_string then Inr (VStr (unquote v))
              else Inr (VStr v))"

definition parse_literal :: "'f builtins \<Rightarrow> literal_ctx \<Rightarrow> error + 'f node" where
  "parse_literal py e =
     (case parse_literal_value py e of
        Inl err \<Rightarrow> Inl err
      | Inr v \<Rightarrow> Inr (Literal v (lit_text e)))"

text \<open>The messages of the two \<open>ParseError\<close>s that \<open>parse_expr\<close> raises itself.\<close>

definition between_message :: "string option \<Rightarrow> string" where
  "between_message t =
     ''Contents of BETWEEN'' @ [SQUOTE] @ ''s AND expression - '' @ str_of t @
     '' - are not valid. Must be of form `valueA AND valueB`.''"

definition unsupported_message :: "string \<Rightarrow> string" where
  "unsupported_message t =
     ''Where expression '' @ [DQUOTE] @ t @ [DQUOTE] @ '' is not supported yet.''"

text \<open>The operands of a node are smaller than the node, also under its wrappers.\<close>

lemma size_unwrap: "size (unwrap_expr_parens e) \<le> size e"
  by (induction e rule: unwrap_expr_parens.induct) (auto split: option.splits)

lemma size_left: "left (unwrap_expr_parens c) = Some e \<Longrightarrow> size e < size c"
  using size_unwrap [of c] by (cases "unwrap_expr_parens c") auto

lemma size_right: "right (unwrap_expr_parens c) = Some e \<Longrightarrow> size e < size c"
  using size_unwrap [of c] by (cases "unwrap_expr_parens c") auto

lemma size_right_list:
  "right_list (unwrap_expr_parens c) = Some es \<Longrightarrow> size_list size es < size c"
  using size_unwrap [of c] by (cases "unwrap_expr_parens c") auto

lemma size_fn: "fn (unwrap_expr_parens c) = Some f \<Longrightarrow> size f < size c"
  using size_unwrap [of c] by (cases "unwrap_expr_parens c") auto

lemma size_arguments: "arguments f = Some es \<Longrightarrow> size_list size es < size f"
  by (cases f) auto

text \<open>
  \<open>parse_expr\<close> with the functions it calls and that call it back. The two list
  comprehensions (over \<open>right_list.expr()\<close> and over \<open>arguments.expr()\<close>) are the
  functions \<open>parse_expr_list\<close> and \<open>parse_function_arguments\<close>. A call on a missing
  operand (\<open>parse_expr(None)\<close>) fails in \<open>unwrap_expr_parens\<close> with an
  \<open>AttributeError\<close>. The branches come in the order of the source: literal, unary
  operator, binary operator (with BETWEEN first), taxon, function.
\<close>

function parse_expr :: "'f builtins \<Rightarrow> expr_ctx \<Rightarrow> error + 'f node"
  and parse_expr_list :: "'f builtins \<Rightarrow> expr_ctx list \<Rightarrow> error + 'f node list"
  and parse_function_argument_pair ::
        "'f builtins \<Rightarrow> expr_ctx \<Rightarrow> error + (string option \<times> 'f node)"
  and parse_function_arguments ::
        "'f builtins \<Rightarrow> expr_ctx list \<Rightarrow> error + (string option \<times> 'f node) list"
  and parse_function :: "'f builtins \<Rightarrow> fn_ctx \<Rightarrow> error + 'f node"
where
  "parse_expr py ctx0 =
     (let ctx = unwrap_expr_parens ctx0 in
      case literalValue ctx of
        Some v \<Rightarrow> parse_literal py v
      | None \<Rightarrow>
      (case unary_operator ctx of
        Some v \<Rightarrow>
          (let operator' = upper (tok_text v) in
           case right ctx of
             None \<Rightarrow> Inl AttributeError
           | Some r \<Rightarrow>
               (case parse_expr py r of
                  Inl err \<Rightarrow> Inl err
                | Inr right' \<Rightarrow>
                    if operator' = ''+'' then Inr right'
                    else if operator' = ''-'' \<and> is_Literal right' \<and>
                            is_number (node_value right') then
                      Inr (Literal (times_minus_one py (node_value right')) (expr_text ctx))
                    else if operator' = ''NOT'' \<and> is_Literal right' then
                      (let v' = \<not> truth py (node_value right')
                       in Inr (Literal (VBool v') (if v' then ''true'' else ''false'')))
                    else Inr (Expr operator' [right'])))
      | None \<Rightarrow>
      (case full_text (operator ctx) of
        Some (c # cs) \<Rightarrow>
          (let op = upper (c # cs);
               rights =
                 (case right_list ctx of
                    Some es \<Rightarrow> parse_expr_list py es
                  | None \<Rightarrow>
                      (case right ctx of
                         None \<Rightarrow> Inl AttributeError
                       | Some r \<Rightarrow>
                           (case parse_expr py r of
                              Inl err \<Rightarrow> Inl err
                            | Inr n \<Rightarrow> Inr [n])))
           in case rights of
                Inl err \<Rightarrow> Inl err
              | Inr right' \<Rightarrow>
                  if op = ''BETWEEN'' then
                    (case left ctx of
                       None \<Rightarrow> Inl AttributeError
                     | Some l \<Rightarrow>
                     (case parse_expr py l of
                        Inl err \<Rightarrow> Inl err
                      | Inr left' \<Rightarrow>
                      (case right ctx of
                         None \<Rightarrow> Inl AttributeError
                       | Some r \<Rightarrow>
                       (case parse_expr py r of
                          Inl err \<Rightarrow> Inl err
                        | Inr between_and \<Rightarrow>
                            if is_Expr between_and \<and> node_operator between_and = ''AND'' \<and>
                               length (node_args between_and) = 2
                            then
                              (if is_negated ctx then
                                 Inr (Expr ''OR''
                                   [Expr ''<'' [left', node_args between_and ! 0],
                                    Expr ''>'' [left', node_args between_and ! 1]])
                               else
                                 Inr (Expr ''AND''
                                   [Expr ''>='' [left', node_args between_and ! 0],
                                    Expr ''<='' [left', node_args between_and ! 1]]))
                            else
                              Inl (ParseError
                                (between_message (full_text_expr (right ctx))))))))
                  else
                    (case left ctx of
                       None \<Rightarrow> Inl AttributeError
                     | Some l \<Rightarrow>
                     (case parse_expr py l of
                        Inl err \<Rightarrow> Inl err
                      | Inr left' \<Rightarrow>
                          (let ex = Expr op (left' # right')
                           in if is_negated ctx then Inr (Expr ''NOT'' [ex]) else Inr ex))))
      | _ \<Rightarrow>
      (case taxon ctx of
        Some v \<Rightarrow> Inr (parse_taxon v)
      | None \<Rightarrow>
      (case fn ctx of
        Some v \<Rightarrow> parse_function py v
      | None \<Rightarrow> Inl (ParseError (unsupported_message (expr_text ctx))))))))"
| "parse_expr_list py [] = Inr []"
| "parse_expr_list py (e # es) =
     (case parse_expr py e of
        Inl err \<Rightarrow> Inl err
      | Inr n \<Rightarrow>
          (case parse_expr_list py es of
             Inl err \<Rightarrow> Inl err
           | Inr ns \<Rightarrow> Inr (n # ns)))"
| "parse_function_argument_pair py e0 =
     (let e = unwrap_expr_parens e0;
          oper = full_text (operator e)
      in if oper = Some ''='' then
           (let arg_name = full_text_expr (left e)
            in case right e of
                 None \<Rightarrow> Inl AttributeError
               | Some r \<Rightarrow>
                   (case parse_expr py r of
                      Inl err \<Rightarrow> Inl err
                    | Inr arg_value \<Rightarrow> Inr (arg_name, arg_value)))
         else
           (case parse_expr py e of
              Inl err \<Rightarrow> Inl err
            | Inr arg_value \<Rightarrow> Inr (None, arg_value)))"
| "parse_function_arguments py [] = Inr []"
| "parse_function_arguments py (e # es) =
     (case parse_function_argument_pair py e of
        Inl err \<Rightarrow> Inl err
      | Inr p \<Rightarrow>
          (case parse_function_arguments py es of
             Inl err \<Rightarrow> Inl err
           | Inr ps \<Rightarrow> Inr (p # ps)))"
| "parse_function py e =
     (case arguments e of
        Some es \<Rightarrow>
          (case parse_function_arguments py es of
             Inl err \<Rightarrow> Inl err
           | Inr ps \<Rightarrow> Inr (Function (full_text (function_name e)) (Some ps)))
      | None \<Rightarrow> Inr (Function (full_text (function_name e)) None))"
  by pat_completeness auto

termination
  by (relation "measure (\<lambda>x. case x of
            Inl (Inl (py, c)) \<Rightarrow> 2 * size c
          | Inl (Inr (py, es)) \<Rightarrow> 2 * size_list size es
          | Inr (Inl (py, c)) \<Rightarrow> 2 * size c + 1
          | Inr (Inr (Inl (py, es))) \<Rightarrow> 2 * size_list size es
          | Inr (Inr (Inr (py, f))) \<Rightarrow> 2 * size f)")
     (auto simp add: size_left size_right size_right_list size_fn size_arguments
        le_imp_less_Suc size_unwrap dest: size_right)

declare parse_expr.simps [simp del] parse_function_argument_pair.simps [simp del]

section \<open>The renderer: \<open>to_pql\<close>\<close>

text \<open>
  \<open>to_tel\<close> is \<open>str(to_r(o))\<close>: the renderer class of the node's kind is looked up and
  its \<open>__str__\<close> runs. For an \<open>Expr\<close> the source tests \<open>len(args) == 1\<close> and
  otherwise reads \<open>args[0]\<close> and \<open>args[1]\<close>, which raises an \<open>IndexError\<close> on an
  empty tuple and ignores every argument after the second. \<open>to_tel_args\<close> is the
  list comprehension over the argument pairs of a function; \<open>args or []\<close> makes a
  missing argument tuple an empty one.
\<close>

fun to_tel :: "'f node \<Rightarrow> error + string"
  and to_tel_args :: "(string option \<times> 'f node) list \<Rightarrow> error + string list"
where
  "to_tel (Expr op []) = Inl IndexError"
| "to_tel (Expr op [right']) =
     (let padding = (if op = ''+'' \<or> op = ''-'' then [] else '' '')
      in case to_tel right' of
           Inl err \<Rightarrow> Inl err
         | Inr r \<Rightarrow> Inr (op @ padding @ r))"
| "to_tel (Expr op (left' # right' # rest)) =
     (case to_tel left' of
        Inl err \<Rightarrow> Inl err
      | Inr l \<Rightarrow>
          (case to_tel right' of
             Inl err \<Rightarrow> Inl err
           | Inr r \<Rightarrow> Inr (''('' @ l @ '' '' @ op @ '' '' @ r @ '')'')))"
| "to_tel (Literal v raw) = Inr raw"
| "to_tel (Taxon slug' namespace' is_optional' tag') =
     (let opt = (if is_optional' then ''?'' else []);
          ns = (case namespace' of Some (c # cs) \<Rightarrow> (c # cs) @ ''|'' | _ \<Rightarrow> []);
          tg = (case tag' of Some (c # cs) \<Rightarrow> '':'' @ (c # cs) | _ \<Rightarrow> [])
      in Inr (opt @ ns @ str_of slug' @ tg))"
| "to_tel (Function fname None) =
     (case to_tel_args [] of
        Inl err \<Rightarrow> Inl err
      | Inr parts \<Rightarrow> Inr (str_of fname @ ''('' @ join '','' parts @ '')''))"
| "to_tel (Function fname (Some ps)) =
     (case to_tel_args ps of
        Inl err \<Rightarrow> Inl err
      | Inr parts \<Rightarrow> Inr (str_of fname @ ''('' @ join '','' parts @ '')''))"
| "to_tel_args [] = Inr []"
| "to_tel_args ((n, v) # ps) =
     (case to_tel v of
        Inl err \<Rightarrow> Inl err
      | Inr r \<Rightarrow>
          (case to_tel_args ps of
             Inl err \<Rightarrow> Inl err
           | Inr rs \<Rightarrow>
               Inr ((case n of Some (c # cs) \<Rightarrow> (c # cs) @ ''='' @ r | _ \<Rightarrow> r) # rs)))"

section \<open>Nesting in parentheses\<close>

text \<open>
  \<open>wraps n p e\<close>: the node \<open>p\<close> is the node \<open>e\<close> inside exactly \<open>n\<close> paren
  wrappers, that is, following \<open>inner\<close> from \<open>p\<close> \<open>n\<close> times arrives at \<open>e\<close>.
\<close>

fun wraps :: "nat \<Rightarrow> expr_ctx \<Rightarrow> expr_ctx \<Rightarrow> bool" where
  "wraps 0 p e = (p = e)"
| "wraps (Suc n) p e = (case inner p of None \<Rightarrow> False | Some q \<Rightarrow> wraps n q e)"

section \<open>Example parse trees\<close>

text \<open>
  The numbers of the examples are plain decimal digit strings, on which \<open>int\<close>
  returns the decimal value; the examples contain no other numeric text, so on every
  other text this instance of the builtins just fails, and it has no floats.
\<close>

definition digit_of :: "char \<Rightarrow> int option" where
  "digit_of c = map_of (zip ''0123456789'' [0, 1, 2, 3, 4, 5, 6, 7, 8, 9]) c"

fun decimal :: "int \<Rightarrow> string \<Rightarrow> int option" where
  "decimal acc [] = Some acc"
| "decimal acc (c # cs) =
     (case digit_of c of None \<Rightarrow> None | Some d \<Rightarrow> decimal (10 * acc + d) cs)"

definition example_builtins :: "unit builtins" where
  "example_builtins =
     \<lparr> py_int = (\<lambda>s. if s = [] then None else decimal 0 s),
       py_float = (\<lambda>s. None),
       float_neg = (\<lambda>x. x),
       float_bool = (\<lambda>x. True) \<rparr>"

text \<open>
  The parse trees of the shapes that the examples use: an expression in parentheses, a
  number, the keyword \<open>true\<close>, a taxon that is a bare slug, a unary operator with its
  operand, a binary operator with its two operands and its negation flag, and an
  operator with a list on its right.
\<close>

definition paren_ctx :: "expr_ctx \<Rightarrow> expr_ctx" where
  "paren_ctx e = ExprContext (Some e) None None None None None None False None None
     (''('' @ expr_text e @ '')'')"

definition number_ctx :: "string \<Rightarrow> expr_ctx" where
  "number_ctx t = ExprContext None
     (Some \<lparr> NUMERIC_LITERAL = True, DOUBLE_QUOTED_STRING = False,
              SINGLE_QUOTED_STRING = False, K_NULL = False, K_TRUE = False,
              K_FALSE = False, lit_text = t \<rparr>)
     None None None None None False None None t"

definition true_ctx :: expr_ctx where
  "true_ctx = ExprContext None
     (Some \<lparr> NUMERIC_LITERAL = False, DOUBLE_QUOTED_STRING = False,
              SINGLE_QUOTED_STRING = False, K_NULL = False, K_TRUE = True,
              K_FALSE = False, lit_text = ''true'' \<rparr>)
     None None None None None False None None ''true''"

definition slug_ctx :: "string \<Rightarrow> expr_ctx" where
  "slug_ctx t = ExprContext None None None None None None None False
     (Some \<lparr> slug = Some (Tok t), namespace = None, is_optional = False, tag = None \<rparr>)
     None t"

definition unary_ctx :: "string \<Rightarrow> expr_ctx \<Rightarrow> expr_ctx" where
  "unary_ctx oper r = ExprContext None None (Some (Tok oper)) None None (Some r) None False
     None None (oper @ expr_text r)"

definition binary_ctx :: "expr_ctx \<Rightarrow> bool \<Rightarrow> string \<Rightarrow> expr_ctx \<Rightarrow> expr_ctx" where
  "binary_ctx l neg oper r = ExprContext None None None (Some (Tok oper)) (Some l) (Some r) None
     neg None None
     (expr_text l @ (if neg then '' NOT '' else '' '') @ oper @ '' '' @ expr_text r)"

definition list_ctx :: "expr_ctx \<Rightarrow> bool \<Rightarrow> string \<Rightarrow> expr_ctx list \<Rightarrow> expr_ctx" where
  "list_ctx l neg oper rs = ExprContext None None None (Some (Tok oper)) (Some l) None (Some rs)
     neg None None
     (expr_text l @ (if neg then '' NOT '' else '' '') @ oper @ '' ('' @
        join '','' (map expr_text rs) @ '')'')"

section \<open>Helper lemmas\<close>

lemmas char_defs = DQUOTE_def SQUOTE_def BACKSLASH_def

lemmas example_defs = example_builtins_def paren_ctx_def number_ctx_def true_ctx_def
  slug_ctx_def unary_ctx_def binary_ctx_def list_ctx_def

lemmas lifter_defs = parse_literal_def parse_literal_value_def parse_taxon_def full_text_def
  full_text_expr_def upper_def upper_char_def digit_of_def

lemma replace_absent: "old \<noteq> [] \<Longrightarrow> \<not> contains old s \<Longrightarrow> replace old new s = s"
proof (induction s)
  case Nil
  then show ?case by (simp add: replace.simps)
next
  case (Cons c cs)
  from Cons.prems have np: "\<not> prefix old (c # cs)" and nc: "\<not> contains old cs"
    by simp_all
  from Cons.IH [OF Cons.prems(1) nc] np Cons.prems(1) show ?case
    by (subst replace.simps) simp
qed

lemma unquote_plain: "plain s \<Longrightarrow> unquote s = s"
  by (simp add: unquote_def plain_def replace_absent)

lemma unwrap_inner: "inner p = Some q \<Longrightarrow> unwrap_expr_parens p = unwrap_expr_parens q"
  by (cases p) simp

lemma unwrap_wraps: "wraps n p e \<Longrightarrow> unwrap_expr_parens p = unwrap_expr_parens e"
  by (induction n arbitrary: p) (auto split: option.splits simp: unwrap_inner)

lemma inner_unwrap: "inner (unwrap_expr_parens e) = None"
  by (induction e rule: unwrap_expr_parens.induct) (auto split: option.splits)

lemma unwrap_idem: "unwrap_expr_parens (unwrap_expr_parens e) = unwrap_expr_parens e"
  using inner_unwrap [of e] by (cases "unwrap_expr_parens e") simp

lemma parse_expr_unwrap: "parse_expr py ctx = parse_expr py (unwrap_expr_parens ctx)"
  using parse_expr.simps [of py ctx] parse_expr.simps [of py "unwrap_expr_parens ctx"]
  by (simp only: unwrap_idem)

lemma upper_Nil: "upper s = u \<Longrightarrow> u \<noteq> [] \<Longrightarrow> \<exists>x xs. s = x # xs"
  by (cases s) (auto simp: upper_def)


lemma parse_expr_list_all2:
  "list_all2 (\<lambda>e n. parse_expr py e = Inr n) es ns \<Longrightarrow> parse_expr_list py es = Inr ns"
  by (induction es ns rule: list_all2_induct) simp_all

section \<open>BETWEEN\<close>

text \<open>
  C1: a node whose operator is BETWEEN, whose left side lifts to \<open>a\<close> and whose right
  side lifts to \<open>Expr('AND', (lo, hi))\<close>, lifts to
  \<open>Expr('AND', (Expr('>=', (a, lo)), Expr('<=', (a, hi))))\<close> when it is not negated
  and to \<open>Expr('OR', (Expr('<', (a, lo)), Expr('>', (a, hi))))\<close> when it is; that is
  the whole result, with no \<open>Expr('NOT', ...)\<close> around it. The node is the one that
  remains after the parentheses are peeled off, it is neither a literal nor a unary
  expression (those rules come first), and, being a BETWEEN, it has a single right
  operand and no list.
\<close>

theorem between_desugared:
  assumes "c = unwrap_expr_parens ctx"
    and "literalValue c = None" and "unary_operator c = None"
    and "operator c = Some t" and "upper (tok_text t) = ''BETWEEN''"
    and "right_list c = None"
    and "left c = Some l" and "parse_expr py l = Inr a"
    and "right c = Some r" and "parse_expr py r = Inr (Expr ''AND'' [lo, hi])"
  shows "parse_expr py ctx =
     Inr (if is_negated c
          then Expr ''OR'' [Expr ''<'' [a, lo], Expr ''>'' [a, hi]]
          else Expr ''AND'' [Expr ''>='' [a, lo], Expr ''<='' [a, hi]])"
proof -
  from upper_Nil [OF assms(5)] obtain x xs where t: "tok_text t = x # xs"
    by auto
  show ?thesis
    using assms t by (subst parse_expr.simps) (simp add: full_text_def)
qed

text \<open>
  The two examples of the specification, \<open>x BETWEEN 1 AND 10\<close> and
  \<open>x NOT BETWEEN 1 AND 10\<close>, with their renderings.
\<close>

theorem between_desugared_witness:
  "parse_expr example_builtins
     (binary_ctx (slug_ctx ''x'') False ''between''
        (binary_ctx (number_ctx ''1'') False ''and'' (number_ctx ''10''))) =
   Inr (Expr ''AND''
     [Expr ''>='' [Taxon (Some ''x'') None False None, Literal (VInt 1) ''1''],
      Expr ''<='' [Taxon (Some ''x'') None False None, Literal (VInt 10) ''10'']]) \<and>
   parse_expr example_builtins
     (binary_ctx (slug_ctx ''x'') True ''between''
        (binary_ctx (number_ctx ''1'') False ''and'' (number_ctx ''10''))) =
   Inr (Expr ''OR''
     [Expr ''<'' [Taxon (Some ''x'') None False None, Literal (VInt 1) ''1''],
      Expr ''>'' [Taxon (Some ''x'') None False None, Literal (VInt 10) ''10'']]) \<and>
   to_tel (Expr ''AND''
     [Expr ''>='' [Taxon (Some ''x'') None False None, Literal (VInt 1) ''1''],
      Expr ''<='' [Taxon (Some ''x'') None False None, Literal (VInt (10::int)) ''10'']]
      :: unit node) = Inr ''((x >= 1) AND (x <= 10))'' \<and>
   to_tel (Expr ''OR''
     [Expr ''<'' [Taxon (Some ''x'') None False None, Literal (VInt 1) ''1''],
      Expr ''>'' [Taxon (Some ''x'') None False None, Literal (VInt 10) ''10'']]
      :: unit node) = Inr ''((x < 1) OR (x > 10))''"
proof -
  let ?x = "slug_ctx ''x''"
  let ?r = "binary_ctx (number_ctx ''1'') False ''and'' (number_ctx ''10'')"
  have l: "parse_expr example_builtins ?x = Inr (Taxon (Some ''x'') None False None)"
    by (simp add: parse_expr.simps example_defs lifter_defs)
  have r: "parse_expr example_builtins ?r =
      Inr (Expr ''AND'' [Literal (VInt 1) ''1'', Literal (VInt 10) ''10''])"
    by (simp add: parse_expr.simps example_defs lifter_defs)
  have u: "upper ''between'' = ''BETWEEN''"
    by (simp add: upper_def upper_char_def)
  have pos: "parse_expr example_builtins (binary_ctx ?x False ''between'' ?r) =
      Inr (Expr ''AND''
        [Expr ''>='' [Taxon (Some ''x'') None False None, Literal (VInt 1) ''1''],
         Expr ''<='' [Taxon (Some ''x'') None False None, Literal (VInt 10) ''10'']])"
    using between_desugared [of "binary_ctx ?x False ''between'' ?r"
        "binary_ctx ?x False ''between'' ?r" "Tok ''between''" ?x example_builtins _ ?r,
        OF _ _ _ _ _ _ _ l _ r] u
    by (simp add: binary_ctx_def)
  have neg: "parse_expr example_builtins (binary_ctx ?x True ''between'' ?r) =
      Inr (Expr ''OR''
        [Expr ''<'' [Taxon (Some ''x'') None False None, Literal (VInt 1) ''1''],
         Expr ''>'' [Taxon (Some ''x'') None False None, Literal (VInt 10) ''10'']])"
    using between_desugared [of "binary_ctx ?x True ''between'' ?r"
        "binary_ctx ?x True ''between'' ?r" "Tok ''between''" ?x example_builtins _ ?r,
        OF _ _ _ _ _ _ _ l _ r] u
    by (simp add: binary_ctx_def)
  have render: "to_tel (Expr ''AND''
     [Expr ''>='' [Taxon (Some ''x'') None False None, Literal (VInt 1) ''1''],
      Expr ''<='' [Taxon (Some ''x'') None False None, Literal (VInt (10::int)) ''10'']]
      :: unit node) = Inr ''((x >= 1) AND (x <= 10))''"
    "to_tel (Expr ''OR''
     [Expr ''<'' [Taxon (Some ''x'') None False None, Literal (VInt 1) ''1''],
      Expr ''>'' [Taxon (Some ''x'') None False None, Literal (VInt 10) ''10'']]
      :: unit node) = Inr ''((x < 1) OR (x > 10))''"
    by (simp_all add: str_of_def)
  from pos neg render show ?thesis
    by (simp only: simp_thms)
qed




section \<open>Parentheses and unary operators\<close>

text \<open>
  C5: a node wrapped in any number \<open>n\<close> of paren wrappers lifts to what the node
  itself lifts to (the same AST, or the same error).
\<close>

theorem paren_idempotence:
  "wraps n p e \<Longrightarrow> parse_expr py p = parse_expr py e"
  using parse_expr_unwrap [of py p] parse_expr_unwrap [of py e] unwrap_wraps [of n p e]
  by simp

theorem paren_idempotence_witness:
  "wraps 1 (paren_ctx (slug_ctx ''x'')) (slug_ctx ''x'') \<and>
   wraps 3 (paren_ctx (paren_ctx (paren_ctx (slug_ctx ''x'')))) (slug_ctx ''x'') \<and>
   parse_expr example_builtins (paren_ctx (slug_ctx ''x'')) =
     Inr (Taxon (Some ''x'') None False None) \<and>
   parse_expr example_builtins (paren_ctx (paren_ctx (paren_ctx (slug_ctx ''x'')))) =
     Inr (Taxon (Some ''x'') None False None)"
proof -
  let ?x = "slug_ctx ''x''"
  have w1: "wraps (Suc 0) (paren_ctx ?x) ?x"
    by (simp add: paren_ctx_def)
  have w3: "wraps (Suc (Suc (Suc 0))) (paren_ctx (paren_ctx (paren_ctx ?x))) ?x"
    by (simp add: paren_ctx_def)
  have x: "parse_expr example_builtins ?x = Inr (Taxon (Some ''x'') None False None)"
    by (simp add: parse_expr.simps example_defs lifter_defs)
  from w1 w3 x paren_idempotence [OF w1, of example_builtins]
    paren_idempotence [OF w3, of example_builtins]
  show ?thesis
    by (simp add: numeral_3_eq_3)
qed

text \<open>
  C6: a node with the unary operator \<open>+\<close> lifts to exactly what its operand lifts to,
  whatever the operand is (and fails as the operand does when that does not lift); no
  \<open>Expr\<close> with operator \<open>+\<close> is built.
\<close>

theorem unary_plus_eliminated:
  assumes "c = unwrap_expr_parens ctx"
    and "literalValue c = None"
    and "unary_operator c = Some t" and "tok_text t = ''+''"
    and "right c = Some x"
  shows "parse_expr py ctx = parse_expr py x"
  using assms
  by (subst parse_expr.simps) (simp add: upper_def upper_char_def Let_def split: sum.splits)

theorem unary_plus_eliminated_witness:
  "parse_expr example_builtins (unary_ctx ''+'' (number_ctx ''5'')) =
     Inr (Literal (VInt 5) ''5'') \<and>
   parse_expr example_builtins (unary_ctx ''+'' (slug_ctx ''x'')) =
     Inr (Taxon (Some ''x'') None False None)"
proof -
  have n: "parse_expr example_builtins (number_ctx ''5'') = Inr (Literal (VInt 5) ''5'')"
    by (simp add: parse_expr.simps example_defs lifter_defs)
  have x: "parse_expr example_builtins (slug_ctx ''x'') =
      Inr (Taxon (Some ''x'') None False None)"
    by (simp add: parse_expr.simps example_defs lifter_defs)
  have "parse_expr example_builtins (unary_ctx ''+'' (number_ctx ''5'')) =
      parse_expr example_builtins (number_ctx ''5'')"
    using unary_plus_eliminated [of "unary_ctx ''+'' (number_ctx ''5'')"
        "unary_ctx ''+'' (number_ctx ''5'')" "Tok ''+''" "number_ctx ''5''" example_builtins]
    by (simp add: unary_ctx_def)
  moreover have "parse_expr example_builtins (unary_ctx ''+'' (slug_ctx ''x'')) =
      parse_expr example_builtins (slug_ctx ''x'')"
    using unary_plus_eliminated [of "unary_ctx ''+'' (slug_ctx ''x'')"
        "unary_ctx ''+'' (slug_ctx ''x'')" "Tok ''+''" "slug_ctx ''x''" example_builtins]
    by (simp add: unary_ctx_def)
  ultimately show ?thesis
    using n x by simp
qed

text \<open>
  C4, at the input \<open>-true\<close>: the operand lifts to the literal \<open>true\<close>, whose value is
  a \<open>bool\<close> and hence passes \<open>isinstance(right.value, (int, float, Decimal))\<close>; the
  result is the folded literal with the integer value \<open>-1\<close> and the raw text
  \<open>-true\<close>, and not the unary node \<open>Expr('-', (right,))\<close>.
\<close>

theorem unary_minus_true_folded:
  "parse_expr py (unary_ctx ''-'' true_ctx) = Inr (Literal (VInt (- 1)) ''-true'') \<and>
   parse_expr py true_ctx = Inr (Literal (VBool True) ''true'') \<and>
   parse_expr py (unary_ctx ''-'' true_ctx) \<noteq> Inr (Expr ''-'' [Literal (VBool True) ''true''])"
  by (simp add: parse_expr.simps example_defs lifter_defs)

text \<open>
  Everywhere else the unary minus is kept: when the operand lifts to a node that is
  not a literal, or to a literal whose value is \<open>None\<close> or a text.
\<close>

lemma unary_minus_kept:
  assumes "c = unwrap_expr_parens ctx"
    and "literalValue c = None"
    and "unary_operator c = Some t" and "tok_text t = ''-''"
    and "right c = Some x" and "parse_expr py x = Inr right'"
    and "\<not> (is_Literal right' \<and> is_number (node_value right'))"
  shows "parse_expr py ctx = Inr (Expr ''-'' [right'])"
  using assms
  by (subst parse_expr.simps) (auto simp add: upper_def upper_char_def Let_def)

section \<open>Lists on the right, and rendering\<close>

text \<open>
  C7, as amended: a node with a binary operator other than BETWEEN and a list on its
  right, whose left side lifts to \<open>a\<close> and whose list elements lift, in order, to
  \<open>elems\<close>, lifts to \<open>Expr(OP, (a, elem1, elem2, ...))\<close> when it is not negated,
  and to that \<open>Expr\<close> inside \<open>Expr('NOT', ...)\<close> when it is. Rendering an \<open>Expr\<close>
  with two or more arguments reads the first two only: the result is
  \<open>"(" + render(args[0]) + " " + operator + " " + render(args[1]) + ")"\<close>.
\<close>

theorem list_operator_lifted_and_rendered:
  assumes "c = unwrap_expr_parens ctx"
    and "literalValue c = None" and "unary_operator c = None"
    and "operator c = Some t" and "tok_text t \<noteq> []" and "upper (tok_text t) \<noteq> ''BETWEEN''"
    and "right_list c = Some es"
    and "list_all2 (\<lambda>e n. parse_expr py e = Inr n) es elems"
    and "left c = Some l" and "parse_expr py l = Inr a"
  shows "parse_expr py ctx =
           Inr (if is_negated c
                then Expr ''NOT'' [Expr (upper (tok_text t)) (a # elems)]
                else Expr (upper (tok_text t)) (a # elems)) \<and>
         (\<forall>op x y rest sx sy. to_tel x = Inr sx \<and> to_tel y = Inr sy \<longrightarrow>
            to_tel (Expr op (x # y # rest)) = Inr (''('' @ sx @ '' '' @ op @ '' '' @ sy @ '')''))"
proof -
  from assms(5) obtain x xs where t: "tok_text t = x # xs"
    by (cases "tok_text t") auto
  have lifted: "parse_expr py ctx =
      Inr (if is_negated c
           then Expr ''NOT'' [Expr (upper (tok_text t)) (a # elems)]
           else Expr (upper (tok_text t)) (a # elems))"
    using assms(1-4,6,7,9,10) t parse_expr_list_all2 [OF assms(8)]
    by (subst parse_expr.simps) (simp add: full_text_def Let_def)
  have rendered: "to_tel (Expr op (x # y # rest)) =
      Inr (''('' @ sx @ '' '' @ op @ '' '' @ sy @ '')'')"
    if "to_tel x = Inr sx" "to_tel y = Inr sy" for op sx sy rest and x y :: "'g node"
    using that by simp
  from lifted rendered show ?thesis
    by blast
qed

text \<open>
  The example of the specification: \<open>x IN (1,2,3)\<close> lifts to
  \<open>Expr('IN', (x, 1, 2, 3))\<close>, and that renders as \<open>(x IN 1)\<close>.
\<close>

theorem list_operator_lifted_and_rendered_witness:
  "parse_expr example_builtins
     (list_ctx (slug_ctx ''x'') False ''IN'' [number_ctx ''1'', number_ctx ''2'', number_ctx ''3'']) =
   Inr (Expr ''IN'' [Taxon (Some ''x'') None False None, Literal (VInt 1) ''1'',
                     Literal (VInt 2) ''2'', Literal (VInt 3) ''3'']) \<and>
   to_tel (Expr ''IN'' [Taxon (Some ''x'') None False None, Literal (VInt 1) ''1'',
                     Literal (VInt 2) ''2'', Literal (VInt (3::int)) ''3''] :: unit node) =
   Inr ''(x IN 1)''"
proof -
  let ?x = "slug_ctx ''x''"
  let ?es = "[number_ctx ''1'', number_ctx ''2'', number_ctx ''3'']"
  let ?n = "list_ctx ?x False ''IN'' ?es"
  let ?X = "Taxon (Some ''x'') None False None :: unit node"
  let ?elems = "[Literal (VInt 1) ''1'', Literal (VInt 2) ''2'', Literal (VInt 3) ''3'']
    :: unit node list"
  have l: "parse_expr example_builtins ?x = Inr ?X"
    by (simp add: parse_expr.simps example_defs lifter_defs)
  have es: "list_all2 (\<lambda>e n. parse_expr example_builtins e = Inr n) ?es ?elems"
    by (simp add: parse_expr.simps example_defs lifter_defs)
  have c: "?n = unwrap_expr_parens ?n"
    and lv: "literalValue ?n = None" and uo: "unary_operator ?n = None"
    and op: "operator ?n = Some (Tok ''IN'')" and rl: "right_list ?n = Some ?es"
    and lf: "left ?n = Some ?x" and neg: "is_negated ?n = False"
    by (simp_all add: list_ctx_def)
  have u: "upper (tok_text (Tok ''IN'')) = ''IN''"
    by (simp add: upper_def upper_char_def)
  have ne: "tok_text (Tok ''IN'') \<noteq> []" and nb: "upper (tok_text (Tok ''IN'')) \<noteq> ''BETWEEN''"
    by (simp_all add: upper_def upper_char_def)
  have sx: "to_tel ?X = Inr ''x''"
    by (simp add: str_of_def)
  have sy: "to_tel (Literal (VInt 1) ''1'' :: unit node) = Inr ''1''"
    by simp
  note inst = list_operator_lifted_and_rendered [OF c lv uo op ne nb rl es lf l]
  have lifted: "parse_expr example_builtins ?n = Inr (Expr ''IN'' (?X # ?elems))"
    using inst [THEN conjunct1] by (simp only: neg u if_False)
  have "to_tel (Expr ''IN'' (?X # ?elems)) =
      Inr (''('' @ ''x'' @ '' '' @ ''IN'' @ '' '' @ ''1'' @ '')'')"
    using inst [THEN conjunct2] sx sy by blast
  with lifted show ?thesis
    by simp
qed

text \<open>
  C7 as it is stated fails on a negated node: \<open>x NOT IN (1,2,3)\<close> has an operator
  and a list on its right, and lifts to \<open>Expr('NOT', (Expr('IN', (x, 1, 2, 3)),))\<close>,
  which is not \<open>Expr('IN', (x, 1, 2, 3))\<close>.
\<close>

theorem list_operator_negated_counterexample:
  "parse_expr example_builtins
     (list_ctx (slug_ctx ''x'') True ''IN'' [number_ctx ''1'', number_ctx ''2'', number_ctx ''3'']) =
   Inr (Expr ''NOT''
     [Expr ''IN'' [Taxon (Some ''x'') None False None, Literal (VInt 1) ''1'',
                   Literal (VInt 2) ''2'', Literal (VInt 3) ''3'']]) \<and>
   parse_expr example_builtins
     (list_ctx (slug_ctx ''x'') True ''IN'' [number_ctx ''1'', number_ctx ''2'', number_ctx ''3'']) \<noteq>
   Inr (Expr ''IN'' [Taxon (Some ''x'') None False None, Literal (VInt 1) ''1'',
                     Literal (VInt 2) ''2'', Literal (VInt 3) ''3''])"
  by (simp add: parse_expr.simps example_defs lifter_defs)

text \<open>
  C8: a literal renders as its raw text, whatever its value is and however the lifter
  built it (from a literal of the source, or by folding a unary minus or a unary NOT).
\<close>

theorem literal_round_trip: "to_tel (Literal v raw) = Inr (raw_value (Literal v raw))"
  by simp

section \<open>Taxons\<close>

text \<open>
  C9, as amended: a node that is a taxon lifts to a \<open>Taxon\<close> whose slug, namespace and
  tag are the source texts of the node's parts as they are (\<open>None\<close> for a missing
  part) and whose flag is the node's flag; \<open>unquote\<close> is not applied. The fields are
  the results of \<open>unquote\<close> where that changes nothing: when every part that is there
  has neither a quote wrapper nor a backslash-escaped quote.
\<close>

theorem taxon_fields_verbatim:
  assumes "c = unwrap_expr_parens ctx"
    and "literalValue c = None" and "unary_operator c = None" and "operator c = None"
    and "taxon c = Some e"
  shows "parse_expr py ctx =
           Inr (Taxon (full_text (slug e)) (full_text (namespace e)) (is_optional e)
                  (full_text (tag e))) \<and>
         ((\<forall>p \<in> {slug e, namespace e, tag e}. case p of None \<Rightarrow> True | Some k \<Rightarrow>
              plain (tok_text k)) \<longrightarrow>
          parse_expr py ctx =
            Inr (Taxon (unquote_optional (full_text (slug e)))
                   (unquote_optional (full_text (namespace e))) (is_optional e)
                   (unquote_optional (full_text (tag e)))))"
proof -
  have verbatim: "parse_expr py ctx =
      Inr (Taxon (full_text (slug e)) (full_text (namespace e)) (is_optional e)
             (full_text (tag e)))"
    using assms by (subst parse_expr.simps) (simp add: parse_taxon_def full_text_def)
  have same: "unquote_optional (full_text p) = full_text p"
    if "case p of None \<Rightarrow> True | Some k \<Rightarrow> plain (tok_text k)" for p
    using that by (cases p) (simp_all add: full_text_def unquote_optional_def unquote_plain)
  from verbatim same show ?thesis
    by simp
qed

theorem taxon_fields_verbatim_witness:
  "parse_expr example_builtins (slug_ctx ''x'') = Inr (Taxon (Some ''x'') None False None) \<and>
   unquote_optional (Some ''x'') = Some ''x'' \<and> unquote_optional None = None"
proof -
  let ?n = "slug_ctx ''x''"
  let ?e = "\<lparr> slug = Some (Tok ''x''), namespace = None, is_optional = False, tag = None \<rparr>"
  have c: "?n = unwrap_expr_parens ?n"
    and lv: "literalValue ?n = None" and uo: "unary_operator ?n = None"
    and op: "operator ?n = None" and tx: "taxon ?n = Some ?e"
    by (simp_all add: slug_ctx_def)
  have p: "\<forall>p \<in> {slug ?e, namespace ?e, tag ?e}. case p of None \<Rightarrow> True | Some k \<Rightarrow>
      plain (tok_text k)"
    by (simp add: plain_def wrapped_def char_defs)
  note inst = taxon_fields_verbatim [OF c lv uo op tx, of example_builtins]
  from inst have v: "parse_expr example_builtins ?n =
      Inr (Taxon (full_text (slug ?e)) (full_text (namespace ?e)) (is_optional ?e)
             (full_text (tag ?e)))"
    by (rule conjunct1)
  from inst p have q: "parse_expr example_builtins ?n =
      Inr (Taxon (unquote_optional (full_text (slug ?e)))
             (unquote_optional (full_text (namespace ?e))) (is_optional ?e)
             (unquote_optional (full_text (tag ?e))))"
    by blast
  from v have v': "parse_expr example_builtins ?n = Inr (Taxon (Some ''x'') None False None)"
    by (simp add: full_text_def)
  from q have q': "parse_expr example_builtins ?n =
      Inr (Taxon (unquote_optional (Some ''x'')) (unquote_optional None) False
             (unquote_optional None))"
    by (simp add: full_text_def)
  from v' q' have "unquote_optional (Some ''x'') = Some ''x'' \<and> unquote_optional None = None"
    by simp
  with v' show ?thesis
    by simp
qed

text \<open>
  C9 as it is stated fails on a quoted slug: the taxon whose slug text is \<open>"a"\<close>,
  with its quotes, lifts to a \<open>Taxon\<close> whose slug is that text with the quotes,
  while \<open>unquote\<close> of the text is \<open>a\<close>.
\<close>

theorem taxon_unquote_counterexample:
  "parse_expr example_builtins (slug_ctx [DQUOTE, CHR ''a'', DQUOTE]) =
     Inr (Taxon (Some [DQUOTE, CHR ''a'', DQUOTE]) None False None) \<and>
   unquote [DQUOTE, CHR ''a'', DQUOTE] = ''a'' \<and>
   parse_expr example_builtins (slug_ctx [DQUOTE, CHR ''a'', DQUOTE]) \<noteq>
     Inr (Taxon (unquote_optional (Some [DQUOTE, CHR ''a'', DQUOTE])) (unquote_optional None)
            False (unquote_optional None))"
  by (simp add: parse_expr.simps example_defs lifter_defs unquote_optional_def unquote_def
      wrapped_def strip_ends_def replace.simps char_defs)

section \<open>Properties of \<open>unquote\<close>\<close>

text \<open>
  C3, as amended: a string that has no quote wrapper and in which no backslash stands
  before a double or a single quote is returned unchanged.
\<close>

theorem unquote_unwrapped:
  assumes "\<not> wrapped s"
    and "\<not> contains [BACKSLASH, DQUOTE] s" and "\<not> contains [BACKSLASH, SQUOTE] s"
  shows "unquote s = s"
  using assms unquote_plain [of s] by (simp add: plain_def)

theorem unquote_unwrapped_witness:
  "\<not> wrapped (DQUOTE # ''abc'') \<and> \<not> contains [BACKSLASH, DQUOTE] (DQUOTE # ''abc'') \<and>
   \<not> contains [BACKSLASH, SQUOTE] (DQUOTE # ''abc'') \<and> unquote (DQUOTE # ''abc'') = DQUOTE # ''abc''"
proof -
  have h1: "\<not> wrapped (DQUOTE # ''abc'')"
    by (simp add: wrapped_def char_defs)
  have h2: "\<not> contains [BACKSLASH, DQUOTE] (DQUOTE # ''abc'')"
    by (simp add: char_defs)
  have h3: "\<not> contains [BACKSLASH, SQUOTE] (DQUOTE # ''abc'')"
    by (simp add: char_defs)
  from h1 h2 h3 unquote_unwrapped [OF h1 h2 h3] show ?thesis
    by simp
qed

text \<open>
  C3 as it is stated fails on an escaped quote: the four characters \<open>a\<close>, backslash,
  double quote, \<open>b\<close> have no wrapper (neither end is a quote), and \<open>unquote\<close>
  returns the three characters \<open>a\<close>, double quote, \<open>b\<close>.
\<close>

theorem unquote_unwrapped_counterexample:
  "\<not> wrapped [CHR ''a'', BACKSLASH, DQUOTE, CHR ''b''] \<and>
   unquote [CHR ''a'', BACKSLASH, DQUOTE, CHR ''b''] = [CHR ''a'', DQUOTE, CHR ''b''] \<and>
   unquote [CHR ''a'', BACKSLASH, DQUOTE, CHR ''b''] \<noteq> [CHR ''a'', BACKSLASH, DQUOTE, CHR ''b'']"
  by (simp add: unquote_def wrapped_def replace.simps char_defs)

text \<open>
  C10: on the one-character string that is a single double quote (or a single single
  quote), the first and the last character are the same quote, the string counts as
  wrapped, and \<open>unquote\<close> returns the empty string.
\<close>

theorem unquote_single_quote_char:
  "unquote [DQUOTE] = [] \<and> unquote [SQUOTE] = []"
  by (simp add: unquote_def wrapped_def strip_ends_def replace.simps)

end
